theory Spec2Isabelle
  imports Main "HOL-Library.Word"
begin

section \<open>The APSI example program (main.cpp)\<close>

text \<open>
  The repository consists of one translation unit, \<^verbatim>\<open>main.cpp\<close>: a straight-line
  \<^verbatim>\<open>main\<close> that drives one private-set-intersection session between a Sender and a
  Receiver through the APSI library, over a single \<^verbatim>\<open>StreamChannel\<close> backed by one
  \<^verbatim>\<open>std::stringstream\<close>.

  The APSI library itself (\<^verbatim>\<open>apsi/receiver.h\<close>, \<^verbatim>\<open>apsi/sender.h\<close>,
  \<^verbatim>\<open>apsi/network/stream_channel.h\<close>) is not part of the sources. Its classes are
  therefore opaque types (type variables) and its functions are the fields of an interface
  record \<open>apsi\<close>; \<open>main\<close> is embedded over an arbitrary such interface. A library
  call may throw, so every call but the three getters returns \<open>error + 'a\<close>;
  \<^verbatim>\<open>main\<close> has no \<^verbatim>\<open>try\<close>/\<^verbatim>\<open>catch\<close>, so the first error ends the run.
\<close>

subsection \<open>Data\<close>

text \<open>What a library call can throw: the error kinds of the specification's error taxonomy
  (section 7).\<close>

datatype error =
    Protocol_Mismatch
  | Transport_Failure
  | Incomplete_Result
  | Malformed_Message
  | Database_Busy

text \<open>\<^verbatim>\<open>vector<Item> items(raw.begin(), raw.end())\<close>: an \<^verbatim>\<open>Item\<close> is built from
  a string.\<close>

datatype Item = Item string

text \<open>\<^verbatim>\<open>query_response->package_count\<close> is read into a \<^verbatim>\<open>uint32_t\<close>
  (line 133).\<close>

record QueryResponse =
  package_count :: "32 word"

text \<open>\<^verbatim>\<open>results[i].found\<close> (line 150); the label is the optional label of the
  specification's data model.\<close>

record MatchRecord =
  found :: bool
  label :: "string option"

subsection \<open>The library interface used by main\<close>

text \<open>
  One field per library function that \<^verbatim>\<open>main\<close> calls, under the name it has in the
  source. The type variables stand for the library's classes:
  \<open>'p\<close> PSIParams, \<open>'db\<close> SenderDB, \<open>'k\<close> the OPRF key, \<open>'x\<close> SEALContext,
  \<open>'c\<close> the state of the StreamChannel, \<open>'os\<close> OPRFReceiver, \<open>'rq\<close> Request,
  \<open>'oq\<close> OPRFRequest, \<open>'rs\<close> Response, \<open>'or\<close> OPRFResponse, \<open>'h\<close> HashedItem,
  \<open>'lk\<close> LabelKey, \<open>'rv\<close> Receiver, \<open>'it\<close> IndexTranslationTable,
  \<open>'qq\<close> QueryRequest, \<open>'q\<close> Query, \<open>'rp\<close> ResultPart.
  Member functions take their object first; a function that mutates the channel or the
  database returns the new state. \<open>sender_get_seal_context\<close> and
  \<open>receiver_get_seal_context\<close> are the \<^verbatim>\<open>get_seal_context\<close> members of SenderDB and
  of Receiver; \<open>Load\<close> is \<^verbatim>\<open>PSIParams::Load\<close>; \<open>SenderDB\<close>, \<open>StreamChannel\<close>,
  \<open>Receiver\<close> and \<open>Query\<close> are the constructors called at lines 47, 27, 106 and 121.
\<close>

record ('p, 'db, 'k, 'x, 'c, 'os, 'rq, 'oq, 'rs, 'or, 'h, 'lk, 'rv, 'it, 'qq, 'q, 'rp) apsi =
  Load :: "string \<Rightarrow> error + 'p"
  SenderDB :: "'p \<Rightarrow> error + 'db"
  insert_or_assign :: "'db \<Rightarrow> Item list \<Rightarrow> error + 'db"
  sender_get_seal_context :: "'db \<Rightarrow> 'x"
  get_oprf_key :: "'db \<Rightarrow> 'k"
  StreamChannel :: "'c"
  send :: "'c \<Rightarrow> 'rq \<Rightarrow> error + 'c"
  receive_operation :: "'c \<Rightarrow> 'x \<Rightarrow> error + ('rq \<times> 'c)"
  receive_response :: "'c \<Rightarrow> error + ('rs \<times> 'c)"
  receive_result :: "'c \<Rightarrow> 'x \<Rightarrow> error + ('rp \<times> 'c)"
  CreateOPRFReceiver :: "Item list \<Rightarrow> error + 'os"
  CreateOPRFRequest :: "'os \<Rightarrow> error + 'rq"
  to_oprf_request :: "'rq \<Rightarrow> error + 'oq"
  RunOPRF :: "'oq \<Rightarrow> 'k \<Rightarrow> 'c \<Rightarrow> error + 'c"
  to_oprf_response :: "'rs \<Rightarrow> error + 'or"
  ExtractHashes :: "'or \<Rightarrow> 'os \<Rightarrow> error + ('h list \<times> 'lk list)"
  Receiver :: "'p \<Rightarrow> error + 'rv"
  create_query :: "'rv \<Rightarrow> 'h list \<Rightarrow> error + ('rq \<times> 'it)"
  to_query_request :: "'rq \<Rightarrow> error + 'qq"
  Query :: "'qq \<Rightarrow> 'db \<Rightarrow> error + 'q"
  RunQuery :: "'q \<Rightarrow> 'c \<Rightarrow> error + 'c"
  to_query_response :: "'rs \<Rightarrow> error + QueryResponse"
  receiver_get_seal_context :: "'rv \<Rightarrow> 'x"
  process_result :: "'rv \<Rightarrow> 'lk list \<Rightarrow> 'it \<Rightarrow> 'rp list \<Rightarrow> error + MatchRecord list"

subsection \<open>The state main works on\<close>

text \<open>
  \<^verbatim>\<open>main\<close> mutates two objects: the channel and \<^verbatim>\<open>cout\<close>. The field \<open>trace\<close> is a
  history variable: the operations \<^verbatim>\<open>main\<close> has completed on the channel and the two
  Receiver computations between them, in program order, each named after its place in the
  source.
\<close>

datatype ('rq, 'rs, 'h, 'lk, 'it, 'rp) event =
    Sent_OPRF_Request 'rq
  | Received_OPRF_Request 'rq
  | Ran_OPRF
  | Received_OPRF_Response 'rs
  | Extracted_Hashes "'h list \<times> 'lk list"
  | Sent_Query_Request 'rq
  | Received_Query_Request 'rq
  | Ran_Query
  | Received_Query_Response 'rs
  | Received_Result_Part 'rp
  | Called_process_result "'lk list" 'it "'rp list"

record ('c, 'ev) world =
  channel :: 'c
  trace :: "'ev list"
  cout :: string

text \<open>A statement of \<^verbatim>\<open>main\<close>: it changes the state and either yields a value or
  throws. The state at the throw is kept, so that the trace of a failed run can be read.\<close>

type_synonym ('a, 'w) prog = "'w \<Rightarrow> (error + 'a) \<times> 'w"

definition andthen :: "('a, 'w) prog \<Rightarrow> ('a \<Rightarrow> ('b, 'w) prog) \<Rightarrow> ('b, 'w) prog" where
  "andthen m f w = (case m w of (Inl e, w') \<Rightarrow> (Inl e, w') | (Inr x, w') \<Rightarrow> f x w')"

text \<open>A library call that touches neither the channel nor \<^verbatim>\<open>cout\<close>.\<close>

definition call :: "error + 'a \<Rightarrow> ('a, 'w) prog" where
  "call r w = (r, w)"

definition log_event :: "'ev \<Rightarrow> (unit, ('c, 'ev) world) prog" where
  "log_event ev w = (Inr (), w\<lparr>trace := trace w @ [ev]\<rparr>)"

text \<open>A library call that writes to the channel (\<^verbatim>\<open>channel.send\<close>, \<^verbatim>\<open>RunOPRF\<close>,
  \<^verbatim>\<open>RunQuery\<close>), logged as \<open>ev\<close> once it has returned. When the call throws, the
  run ends there and the channel is not looked at again.\<close>

definition channel_write :: "('c \<Rightarrow> error + 'c) \<Rightarrow> 'ev \<Rightarrow> (unit, ('c, 'ev) world) prog" where
  "channel_write f ev w =
     (case f (channel w) of
        Inl e \<Rightarrow> (Inl e, w)
      | Inr c \<Rightarrow> (Inr (), w\<lparr>channel := c, trace := trace w @ [ev]\<rparr>))"

text \<open>A library call that reads a message off the channel, logged with the message once it
  has returned.\<close>

definition channel_read :: "('c \<Rightarrow> error + ('a \<times> 'c)) \<Rightarrow> ('a \<Rightarrow> 'ev) \<Rightarrow> ('a, ('c, 'ev) world) prog" where
  "channel_read f ev w =
     (case f (channel w) of
        Inl e \<Rightarrow> (Inl e, w)
      | Inr (x, c) \<Rightarrow> (Inr x, w\<lparr>channel := c, trace := trace w @ [ev x]\<rparr>))"

subsection \<open>The loops of main\<close>

text \<open>
  Lines 38 to 42:
  \<^verbatim>\<open>while (getline(params_fs, curr_line)) { params_str.append(curr_line); params_str.append("\n"); }\<close>
  The file is given as the list of its lines (empty when it cannot be opened).
\<close>

fun read_params :: "string list \<Rightarrow> string \<Rightarrow> string" where
  "read_params [] params_str = params_str"
| "read_params (curr_line # rest) params_str =
     read_params rest (params_str @ curr_line @ [CHR 0x0A])"

text \<open>
  Lines 133 to 140:
  \<^verbatim>\<open>uint32_t result_part_count = query_response->package_count;
  vector<ResultPart> result_parts;
  while (result_part_count--) {
      ResultPart result_part = channel.receive_result(receiver.get_seal_context());
      result_parts.push_back(move(result_part));
  }\<close>
  The test reads the counter and then decrements it, also when the test fails: on exit the
  counter has wrapped to \<open>2^32 - 1\<close>. The function returns the final counter with the
  collected parts.
\<close>

function receive_result_parts ::
  "('p, 'db, 'k, 'x, 'c, 'os, 'rq, 'oq, 'rs, 'or, 'h, 'lk, 'rv, 'it, 'qq, 'q, 'rp) apsi \<Rightarrow>
   'rv \<Rightarrow> 32 word \<Rightarrow> 'rp list \<Rightarrow>
   (32 word \<times> 'rp list, ('c, ('rq, 'rs, 'h, 'lk, 'it, 'rp) event) world) prog" where
  "receive_result_parts lib receiver result_part_count result_parts w =
     (if result_part_count = 0 then (Inr (result_part_count - 1, result_parts), w)
      else
        (case receive_result lib (channel w) (receiver_get_seal_context lib receiver) of
           Inl e \<Rightarrow> (Inl e, w)
         | Inr (result_part, c) \<Rightarrow>
             receive_result_parts lib receiver (result_part_count - 1)
               (result_parts @ [result_part])
               (w\<lparr>channel := c, trace := trace w @ [Received_Result_Part result_part]\<rparr>)))"
  by pat_completeness auto
termination
  by (relation "measure (\<lambda>(lib, receiver, result_part_count, result_parts, w). unat result_part_count)")
     (auto simp: unat_minus_one unat_gt_0)

declare receive_result_parts.simps [simp del]

text \<open>The loop body repeated a given number of times, by primitive recursion on that
  number: the reference the counter loop is compared with.\<close>

primrec receive_exactly ::
  "('p, 'db, 'k, 'x, 'c, 'os, 'rq, 'oq, 'rs, 'or, 'h, 'lk, 'rv, 'it, 'qq, 'q, 'rp) apsi \<Rightarrow>
   'rv \<Rightarrow> nat \<Rightarrow> 'rp list \<Rightarrow>
   ('rp list, ('c, ('rq, 'rs, 'h, 'lk, 'it, 'rp) event) world) prog" where
  "receive_exactly lib receiver 0 result_parts w = (Inr result_parts, w)"
| "receive_exactly lib receiver (Suc n) result_parts w =
     (case receive_result lib (channel w) (receiver_get_seal_context lib receiver) of
        Inl e \<Rightarrow> (Inl e, w)
      | Inr (result_part, c) \<Rightarrow>
          receive_exactly lib receiver n (result_parts @ [result_part])
            (w\<lparr>channel := c, trace := trace w @ [Received_Result_Part result_part]\<rparr>))"

text \<open>
  Lines 148 to 151:
  \<^verbatim>\<open>for (size_t i = 0; i < raw_receiver_items.size(); i++) {
      cout << "Item " << raw_receiver_items[i] << ": ";
      cout << (results[i].found ? "FOUND" : "NOT FOUND") << endl;
  }\<close>
  \<open>is\<close> is the list of the indices still to print. As in the source, \<^verbatim>\<open>results[i]\<close>
  is read without a look at \<^verbatim>\<open>results.size()\<close>: past the end of \<^verbatim>\<open>results\<close> the
  record read is an unspecified one (\<open>results ! i\<close>), and the loop goes on.
\<close>

fun print_results ::
  "string list \<Rightarrow> MatchRecord list \<Rightarrow> nat list \<Rightarrow> (unit, ('c, 'ev) world) prog" where
  "print_results raw_receiver_items results [] w = (Inr (), w)"
| "print_results raw_receiver_items results (i # is) w =
     (let w1 = w\<lparr>cout := cout w @ ''Item '' @ raw_receiver_items ! i @ '': ''\<rparr> in
      print_results raw_receiver_items results is
        (w1\<lparr>cout := cout w1 @ (if found (results ! i) then ''FOUND'' else ''NOT FOUND'')
                              @ [CHR 0x0A]\<rparr>))"

text \<open>The line the loop writes for index \<open>i\<close>.\<close>

definition verdict_line :: "string list \<Rightarrow> MatchRecord list \<Rightarrow> nat \<Rightarrow> string" where
  "verdict_line raw results i =
     ''Item '' @ raw ! i @ '': '' @ (if found (results ! i) then ''FOUND'' else ''NOT FOUND'')
       @ [CHR 0x0A]"

subsection \<open>main\<close>

text \<open>
  \<^verbatim>\<open>main\<close>, statement by statement (the line numbers are those of \<^verbatim>\<open>main.cpp\<close>).
  The two item vectors are parameters here; \<open>main\<close> below passes the literals of the
  source. Lines 17 to 21 (thread count, logging) have no effect on the session and are left
  out. \<^verbatim>\<open>params.json\<close> is not among the sources: its lines are an input.
\<close>

definition main_body ::
  "('p, 'db, 'k, 'x, 'c, 'os, 'rq, 'oq, 'rs, 'or, 'h, 'lk, 'rv, 'it, 'qq, 'q, 'rp) apsi \<Rightarrow>
   string list \<Rightarrow> string list \<Rightarrow> string list \<Rightarrow>
   (int, ('c, ('rq, 'rs, 'h, 'lk, 'it, 'rp) event) world) prog" where
  "main_body lib params_fs raw_sender_items raw_receiver_items =
     \<comment> \<open>37-43\<close>
     andthen (call (Load lib (read_params params_fs []))) (\<lambda>params.
     \<comment> \<open>47\<close>
     andthen (call (SenderDB lib params)) (\<lambda>sender_db0.
     \<comment> \<open>60, 63\<close>
     andthen (call (insert_or_assign lib sender_db0 (map Item raw_sender_items))) (\<lambda>sender_db.
     \<comment> \<open>74, 78, 79\<close>
     andthen (call (CreateOPRFReceiver lib (map Item raw_receiver_items))) (\<lambda>oprf_receiver.
     andthen (call (CreateOPRFRequest lib oprf_receiver)) (\<lambda>request.
     \<comment> \<open>82\<close>
     andthen (channel_write (\<lambda>c. send lib c request) (Sent_OPRF_Request request)) (\<lambda>_.
     \<comment> \<open>86, 87\<close>
     andthen (channel_read (\<lambda>c. receive_operation lib c (sender_get_seal_context lib sender_db))
                Received_OPRF_Request) (\<lambda>received_request.
     andthen (call (to_oprf_request lib received_request)) (\<lambda>received_oprf_request.
     \<comment> \<open>90\<close>
     andthen (channel_write (RunOPRF lib received_oprf_request (get_oprf_key lib sender_db))
                Ran_OPRF) (\<lambda>_.
     \<comment> \<open>95-100\<close>
     andthen (channel_read (receive_response lib) Received_OPRF_Response) (\<lambda>response.
     andthen (call (to_oprf_response lib response)) (\<lambda>oprf_response.
     andthen (call (ExtractHashes lib oprf_response oprf_receiver)) (\<lambda>receiver_oprf_items.
     andthen (log_event (Extracted_Hashes receiver_oprf_items)) (\<lambda>_.
     \<comment> \<open>106-110\<close>
     andthen (call (Receiver lib params)) (\<lambda>receiver.
     andthen (call (create_query lib receiver (fst receiver_oprf_items))) (\<lambda>query_data.
     let itt = snd query_data; request = fst query_data in
     \<comment> \<open>113\<close>
     andthen (channel_write (\<lambda>c. send lib c request) (Sent_Query_Request request)) (\<lambda>_.
     \<comment> \<open>117, 118\<close>
     andthen (channel_read (\<lambda>c. receive_operation lib c (sender_get_seal_context lib sender_db))
                Received_Query_Request) (\<lambda>received_request.
     andthen (call (to_query_request lib received_request)) (\<lambda>received_query_request.
     \<comment> \<open>121\<close>
     andthen (call (Query lib received_query_request sender_db)) (\<lambda>query.
     \<comment> \<open>124\<close>
     andthen (channel_write (RunQuery lib query) Ran_Query) (\<lambda>_.
     \<comment> \<open>128, 129\<close>
     andthen (channel_read (receive_response lib) Received_Query_Response) (\<lambda>response.
     andthen (call (to_query_response lib response)) (\<lambda>query_response.
     \<comment> \<open>133-140\<close>
     andthen (receive_result_parts lib receiver (package_count query_response) [])
       (\<lambda>(result_part_count, result_parts).
     \<comment> \<open>143, 144\<close>
     andthen (log_event (Called_process_result (snd receiver_oprf_items) itt result_parts)) (\<lambda>_.
     andthen (call (process_result lib receiver (snd receiver_oprf_items) itt result_parts))
       (\<lambda>results.
     \<comment> \<open>148-151\<close>
     andthen (print_results raw_receiver_items results [0..<length raw_receiver_items]) (\<lambda>_.
     \<comment> \<open>154\<close>
     call (Inr 0)))))))))))))))))))))))))))"

text \<open>Lines 50 to 57 and 67 to 71.\<close>

definition raw_sender_items :: "string list" where
  "raw_sender_items =
     [''Alice'', ''Bob'', ''Charlie'', ''Daniel'', ''Eve'', ''Fazila'', ''Gilbert'']"

definition raw_receiver_items :: "string list" where
  "raw_receiver_items = [''Amir'', ''Charlie'', ''Danny'', ''Eve'']"

text \<open>The program: line 27 builds the channel over a fresh \<^verbatim>\<open>stringstream\<close>; nothing
  has been done or printed yet.\<close>

definition main ::
  "('p, 'db, 'k, 'x, 'c, 'os, 'rq, 'oq, 'rs, 'or, 'h, 'lk, 'rv, 'it, 'qq, 'q, 'rp) apsi \<Rightarrow>
   string list \<Rightarrow> (error + int) \<times> ('c, ('rq, 'rs, 'h, 'lk, 'it, 'rp) event) world" where
  "main lib params_fs =
     main_body lib params_fs raw_sender_items raw_receiver_items
       \<lparr>channel = StreamChannel lib, trace = [], cout = []\<rparr>"

section \<open>The wire, as the specification describes it\<close>

text \<open>
  The properties of what travels on the channel need the channel and the Sender's framing of
  its answers. Both are library code that is not among the sources; the definitions of this
  section follow the specification's words and say so.
\<close>

text \<open>Modelled from the spec: the declarations of \<^verbatim>\<open>Request\<close> and \<^verbatim>\<open>Response\<close> are
  missing. Section 3: a Request is a tagged union, OPRF Request or Query Request; a
  Response is a tagged union, OPRF Response or Query Response, and a Query Response carries
  a \<^verbatim>\<open>package_count\<close>.\<close>

datatype ('oq, 'qq) Request = OPRF_Request 'oq | Query_Request 'qq

datatype 'or Response = OPRF_Response 'or | Query_Response QueryResponse

text \<open>Modelled from the spec: section 6, wire messages. Requests and responses, each
  tagged, and the Result Part messages that follow a Query Response.\<close>

datatype ('rq, 'rs, 'rp) message = Operation 'rq | Reply 'rs | Result_Part 'rp

text \<open>Modelled from the spec: the conversions \<^verbatim>\<open>to_oprf_request\<close>,
  \<^verbatim>\<open>to_oprf_response\<close>, \<^verbatim>\<open>to_query_request\<close> and \<^verbatim>\<open>to_query_response\<close> are
  missing. Section 7, Malformed Message: a tag that does not match the type expected at a
  protocol step is a fatal error.\<close>

definition as_oprf_request :: "('oq, 'qq) Request \<Rightarrow> error + 'oq" where
  "as_oprf_request r = (case r of OPRF_Request x \<Rightarrow> Inr x | Query_Request _ \<Rightarrow> Inl Malformed_Message)"

definition as_query_request :: "('oq, 'qq) Request \<Rightarrow> error + 'qq" where
  "as_query_request r = (case r of Query_Request x \<Rightarrow> Inr x | OPRF_Request _ \<Rightarrow> Inl Malformed_Message)"

definition as_oprf_response :: "'or Response \<Rightarrow> error + 'or" where
  "as_oprf_response r = (case r of OPRF_Response x \<Rightarrow> Inr x | Query_Response _ \<Rightarrow> Inl Malformed_Message)"

definition as_query_response :: "'or Response \<Rightarrow> error + QueryResponse" where
  "as_query_response r = (case r of Query_Response x \<Rightarrow> Inr x | OPRF_Response _ \<Rightarrow> Inl Malformed_Message)"

text \<open>Modelled from the spec: \<^verbatim>\<open>StreamChannel\<close> is missing. Section 4.1: messages are
  delivered whole and in send order. In \<^verbatim>\<open>main.cpp\<close> (lines 26 and 27) one
  \<^verbatim>\<open>stringstream\<close> backs the channel, so both directions share one queue: the state is
  the list of the messages written and not yet read. Reading from the exhausted stream is
  a Transport Failure, a message of the wrong kind a Malformed Message (section 7). The
  context argument only serves deserialisation.\<close>

definition stream_send :: "('rq, 'rs, 'rp) message list \<Rightarrow> 'rq \<Rightarrow> error + ('rq, 'rs, 'rp) message list" where
  "stream_send c request = Inr (c @ [Operation request])"

definition stream_receive_operation ::
  "('rq, 'rs, 'rp) message list \<Rightarrow> 'x \<Rightarrow> error + ('rq \<times> ('rq, 'rs, 'rp) message list)" where
  "stream_receive_operation c context =
     (case c of
        [] \<Rightarrow> Inl Transport_Failure
      | Operation request # rest \<Rightarrow> Inr (request, rest)
      | _ # rest \<Rightarrow> Inl Malformed_Message)"

definition stream_receive_response ::
  "('rq, 'rs, 'rp) message list \<Rightarrow> error + ('rs \<times> ('rq, 'rs, 'rp) message list)" where
  "stream_receive_response c =
     (case c of
        [] \<Rightarrow> Inl Transport_Failure
      | Reply response # rest \<Rightarrow> Inr (response, rest)
      | _ # rest \<Rightarrow> Inl Malformed_Message)"

definition stream_receive_result ::
  "('rq, 'rs, 'rp) message list \<Rightarrow> 'x \<Rightarrow> error + ('rp \<times> ('rq, 'rs, 'rp) message list)" where
  "stream_receive_result c context =
     (case c of
        [] \<Rightarrow> Inl Transport_Failure
      | Result_Part result_part # rest \<Rightarrow> Inr (result_part, rest)
      | _ # rest \<Rightarrow> Inl Malformed_Message)"

text \<open>Modelled from the spec: \<^verbatim>\<open>Sender::RunOPRF\<close> is missing. Section 4.2: it evaluates
  every blinded value of the request under the Sender's OPRF key and writes the response to
  the channel. The evaluation of one value is out of scope (section 1): a parameter.\<close>

definition Sender_RunOPRF ::
  "('k \<Rightarrow> 'b \<Rightarrow> 'e) \<Rightarrow> 'b list \<Rightarrow> 'k \<Rightarrow> ('rq, 'e list Response, 'rp) message list \<Rightarrow>
   error + ('rq, 'e list Response, 'rp) message list" where
  "Sender_RunOPRF evaluate received_oprf_request oprf_key c =
     Inr (c @ [Reply (OPRF_Response (map (evaluate oprf_key) received_oprf_request))])"

text \<open>Modelled from the spec: \<^verbatim>\<open>Sender::RunQuery\<close> is missing. Section 4.4: it
  evaluates the query against the Sender Database and writes a Query Response declaring
  \<^verbatim>\<open>package_count\<close>, followed by exactly \<^verbatim>\<open>package_count\<close> Result Part messages; the
  count reflects the table partitioning, not the Receiver's input size. The partitioning
  (\<open>partitions\<close>) and the evaluation of one partition (\<open>evaluate\<close>) are out of scope
  (section 1): parameters.\<close>

definition Sender_RunQuery ::
  "('q \<Rightarrow> 32 word) \<Rightarrow> ('q \<Rightarrow> nat \<Rightarrow> 'rp) \<Rightarrow> 'q \<Rightarrow> ('rq, 'or Response, 'rp) message list \<Rightarrow>
   error + ('rq, 'or Response, 'rp) message list" where
  "Sender_RunQuery partitions evaluate query c =
     Inr (c @ Reply (Query_Response \<lparr>package_count = partitions query\<rparr>) #
              map (\<lambda>j. Result_Part (evaluate query j)) [0..<unat (partitions query)])"

subsection \<open>An instance of the interface\<close>

text \<open>
  A small instance of the interface, for exhibiting concrete runs of \<^verbatim>\<open>main\<close>: the
  channel, the conversions and the Sender's framing are the ones above; the cryptographic
  operations, which are out of scope, are replaced by cleartext stand-ins (an item is its own
  blinded value and its own hash; the items of the database are dealt to the partitions in
  turn, and partition \<open>j\<close> reports, for each queried item in order, whether it holds the
  item). It is not a model of the APSI library. The parameters are the number of
  partitions.
\<close>

definition dealt_to :: "32 word \<Rightarrow> Item list \<Rightarrow> nat \<Rightarrow> Item list" where
  "dealt_to params held j =
     map snd (filter (\<lambda>(i, item). i mod unat params = j) (zip [0..<length held] held))"

definition loopback ::
  "(32 word, 32 word \<times> Item list, unit, unit,
    ((Item list, Item list) Request, Item list Response, bool list) message list,
    Item list, (Item list, Item list) Request, Item list, Item list Response, Item list,
    Item, unit, unit, nat, Item list, Item list \<times> 32 word \<times> Item list, bool list) apsi" where
  "loopback =
     \<lparr> Load = (\<lambda>params_str. Inr 2),
       SenderDB = (\<lambda>params. Inr (params, [])),
       insert_or_assign = (\<lambda>(params, held) items. Inr (params, held @ items)),
       sender_get_seal_context = (\<lambda>sender_db. ()),
       get_oprf_key = (\<lambda>sender_db. ()),
       StreamChannel = [],
       send = stream_send,
       receive_operation = stream_receive_operation,
       receive_response = stream_receive_response,
       receive_result = stream_receive_result,
       CreateOPRFReceiver = (\<lambda>items. Inr items),
       CreateOPRFRequest = (\<lambda>oprf_receiver. Inr (OPRF_Request oprf_receiver)),
       to_oprf_request = as_oprf_request,
       RunOPRF = Sender_RunOPRF (\<lambda>key item. item),
       to_oprf_response = as_oprf_response,
       ExtractHashes = (\<lambda>oprf_response oprf_receiver.
          Inr (oprf_response, map (\<lambda>item. ()) oprf_receiver)),
       Receiver = (\<lambda>params. Inr ()),
       create_query = (\<lambda>receiver hashed. Inr (Query_Request hashed, length hashed)),
       to_query_request = as_query_request,
       Query = (\<lambda>received_query_request sender_db. Inr (received_query_request, sender_db)),
       RunQuery = Sender_RunQuery (\<lambda>(hashed, params, held). params)
                    (\<lambda>(hashed, params, held) j.
                       map (\<lambda>h. h \<in> set (dealt_to params held j)) hashed),
       to_query_response = as_query_response,
       receiver_get_seal_context = (\<lambda>receiver. ()),
       process_result = (\<lambda>receiver label_keys itt result_parts.
          Inr (map (\<lambda>i. \<lparr>found = list_ex (\<lambda>part. i < length part \<and> part ! i) result_parts,
                          label = None\<rparr>) [0..<itt])) \<rparr>"

section \<open>Properties\<close>

subsection \<open>The Result Part loop\<close>

text \<open>What the reference does to the state: it appends one event per part received, and it
  receives the given number of parts unless a receive throws first.\<close>

lemma receive_exactly_trace:
  "receive_exactly lib receiver n parts w = (r, w') \<Longrightarrow>
     \<exists>new. trace w' = trace w @ map Received_Result_Part new \<and> cout w' = cout w \<and>
       (case r of Inr ps \<Rightarrow> ps = parts @ new \<and> length new = n | Inl e \<Rightarrow> length new < n)"
proof (induction n arbitrary: parts w)
  case 0
  then show ?case by auto
next
  case (Suc n)
  show ?case
  proof (cases "receive_result lib (channel w) (receiver_get_seal_context lib receiver)")
    case (Inl e)
    with Suc.prems show ?thesis by auto
  next
    case (Inr a)
    obtain rp c where a: "a = (rp, c)" by (cases a)
    let ?w1 = "w\<lparr>channel := c, trace := trace w @ [Received_Result_Part rp]\<rparr>"
    from Suc.prems Inr a have "receive_exactly lib receiver n (parts @ [rp]) ?w1 = (r, w')"
      by simp
    from Suc.IH [OF this] obtain new where
      n: "trace w' = trace ?w1 @ map Received_Result_Part new" "cout w' = cout ?w1"
        "(case r of Inr ps \<Rightarrow> ps = (parts @ [rp]) @ new \<and> length new = n
                  | Inl e \<Rightarrow> length new < n)"
      by blast
    show ?thesis
      apply (rule exI [of _ "rp # new"])
      using n by (auto split: sum.splits)
  qed
qed

text \<open>The counter loop against the reference, by computation induction: a counter that is
  not zero has \<open>unat\<close> one more than its predecessor's.\<close>

lemma receive_result_parts_unat:
  "receive_result_parts lib receiver n parts w =
     (case receive_exactly lib receiver (unat n) parts w of
        (Inl e, w') \<Rightarrow> (Inl e, w')
      | (Inr ps, w') \<Rightarrow> (Inr (- 1, ps), w'))"
proof (induction lib receiver n parts w rule: receive_result_parts.induct)
  case (1 lib receiver n parts w)
  show ?case
  proof (cases "n = 0")
    case True
    then show ?thesis by (simp add: receive_result_parts.simps)
  next
    case False
    then have u: "unat n = Suc (unat (n - 1))"
      by (simp add: unat_minus_one unat_gt_0)
    show ?thesis
    proof (cases "receive_result lib (channel w) (receiver_get_seal_context lib receiver)")
      case (Inl e)
      with False u show ?thesis by (simp add: receive_result_parts.simps)
    next
      case (Inr a)
      obtain rp c where a: "a = (rp, c)" by (cases a)
      from "1.IH" [OF False Inr a [symmetric]] False u Inr a show ?thesis
        by (simp add: receive_result_parts.simps [of lib receiver n])
    qed
  qed
qed

text \<open>The loop's effect on the trace: one event per part received.\<close>

lemma receive_result_parts_trace:
  assumes "receive_result_parts lib receiver n parts w = (r, w')"
  shows "\<exists>new. trace w' = trace w @ map Received_Result_Part new \<and> cout w' = cout w \<and>
       (case r of Inr (n', ps) \<Rightarrow> n' = - 1 \<and> ps = parts @ new \<and> length new = unat n
                | Inl e \<Rightarrow> length new < unat n)"
proof -
  obtain r0 where r0: "receive_exactly lib receiver (unat n) parts w = (r0, w')"
    and r: "r = (case r0 of Inl e \<Rightarrow> Inl e | Inr ps \<Rightarrow> Inr (- 1, ps))"
    using assms unfolding receive_result_parts_unat by (auto split: prod.splits sum.splits)
  from receive_exactly_trace [OF r0] r show ?thesis
    by (auto split: sum.splits)
qed

lemma unat_minus_one_32: "unat (- 1 :: 32 word) = 2 ^ 32 - 1"
  by (simp add: unsigned_minus_1_eq_mask mask_eq_exp_minus_1)

text \<open>
  C10. The loop \<^verbatim>\<open>while (result_part_count--)\<close> runs its body exactly
  \<^verbatim>\<open>package_count\<close> times, for every 32-bit value of the counter: it computes what the
  body repeated \<open>unat result_part_count\<close> times computes (a receive that throws ends
  both). In particular a counter of 0 runs the body zero times. When the loop is left, the
  decrement after the last test has wrapped the counter to \<open>2^32 - 1\<close> and this has
  caused no further iteration: exactly \<open>unat result_part_count\<close> parts have been
  received and appended, each logged once; when a receive throws, fewer have been.
\<close>

theorem result_part_loop_iterations:
  "receive_result_parts lib receiver result_part_count result_parts w =
     (case receive_exactly lib receiver (unat result_part_count) result_parts w of
        (Inl e, w') \<Rightarrow> (Inl e, w')
      | (Inr collected, w') \<Rightarrow> (Inr (- 1, collected), w'))
   \<and> receive_result_parts lib receiver 0 result_parts w = (Inr (- 1, result_parts), w)
   \<and> (case receive_result_parts lib receiver result_part_count result_parts w of
        (Inr (c, collected), w') \<Rightarrow>
          unat c = 2 ^ 32 - 1 \<and>
          (\<exists>new. collected = result_parts @ new \<and> length new = unat result_part_count \<and>
                 trace w' = trace w @ map Received_Result_Part new)
      | (Inl e, w') \<Rightarrow>
          (\<exists>new. length new < unat result_part_count \<and>
                 trace w' = trace w @ map Received_Result_Part new))"
proof -
  obtain r w' where
    run: "receive_result_parts lib receiver result_part_count result_parts w = (r, w')"
    by (cases "receive_result_parts lib receiver result_part_count result_parts w")
  from receive_result_parts_trace [OF run] obtain new where
    new: "trace w' = trace w @ map Received_Result_Part new"
      "(case r of
          Inr (n', ps) \<Rightarrow> n' = - 1 \<and> ps = result_parts @ new \<and> length new = unat result_part_count
        | Inl e \<Rightarrow> length new < unat result_part_count)"
    by blast
  have third: "(case (r, w') of
        (Inr (c, collected), w') \<Rightarrow>
          unat c = 2 ^ 32 - 1 \<and>
          (\<exists>new. collected = result_parts @ new \<and> length new = unat result_part_count \<and>
                 trace w' = trace w @ map Received_Result_Part new)
      | (Inl e, w') \<Rightarrow>
          (\<exists>new. length new < unat result_part_count \<and>
                 trace w' = trace w @ map Received_Result_Part new))"
    using new by (auto split: sum.splits simp: unat_minus_one_32)
  show ?thesis
    using third unfolding run [symmetric]
    by (simp add: receive_result_parts_unat)
qed

text \<open>With two parts announced and three on the stream, two are taken; with none announced,
  none is.\<close>

theorem result_part_loop_iterations_witness:
  "receive_result_parts loopback () 2 []
     \<lparr>channel = [Result_Part [True], Result_Part [False], Result_Part []], trace = [], cout = []\<rparr>
   = (Inr (- 1, [[True], [False]]),
      \<lparr>channel = [Result_Part []],
       trace = [Received_Result_Part [True], Received_Result_Part [False]], cout = []\<rparr>)
   \<and> receive_result_parts loopback () 0 []
     \<lparr>channel = [Result_Part [True]], trace = [], cout = []\<rparr>
   = (Inr (- 1, []), \<lparr>channel = [Result_Part [True]], trace = [], cout = []\<rparr>)"
proof -
  let ?w = "\<lparr>channel = [Result_Part [True], Result_Part [False], Result_Part []],
              trace = [], cout = []\<rparr>
              :: (((Item list, Item list) Request, Item list Response, bool list) message list,
                  ((Item list, Item list) Request, Item list Response, Item, unit, nat,
                   bool list) event) world"
  have two: "unat (2 :: 32 word) = Suc (Suc 0)" by simp
  have body: "receive_exactly loopback () (Suc (Suc 0)) [] ?w =
      (Inr [[True], [False]],
       \<lparr>channel = [Result_Part []],
        trace = [Received_Result_Part [True], Received_Result_Part [False]], cout = []\<rparr>)"
    by (simp add: loopback_def stream_receive_result_def)
  have "receive_result_parts loopback () 2 [] ?w =
      (Inr (- 1, [[True], [False]]),
       \<lparr>channel = [Result_Part []],
        trace = [Received_Result_Part [True], Received_Result_Part [False]], cout = []\<rparr>)"
    by (simp only: conjunct1 [OF result_part_loop_iterations] two body) simp
  then show ?thesis
    by (simp add: conjunct1 [OF conjunct2 [OF result_part_loop_iterations]])
qed

lemma print_results_trace:
  "print_results raw results is w = (r, w') \<Longrightarrow> trace w' = trace w \<and> channel w' = channel w"
  by (induction raw results "is" w arbitrary: r w' rule: print_results.induct)
     (auto simp: Let_def)

subsection \<open>What main prints\<close>

text \<open>The print loop writes one line per index, in order.\<close>

lemma print_results_cout:
  "print_results raw results is w =
     (Inr (), w\<lparr>cout := cout w @ concat (map (verdict_line raw results) is)\<rparr>)"
  by (induction raw results "is" w rule: print_results.induct)
     (auto simp: Let_def verdict_line_def)

text \<open>The loop against the reference, with its effect on the trace: what a run of \<open>main\<close>
  that passes the loop knows about the parts it holds.\<close>

lemma receive_result_parts_cases:
  assumes "receive_result_parts lib receiver n parts w = (r, w')"
  shows "\<exists>new. trace w' = trace w @ map Received_Result_Part new \<and> cout w' = cout w \<and>
       (case r of
          Inr (n', ps) \<Rightarrow> n' = - 1 \<and> ps = parts @ new \<and> length new = unat n \<and>
            receive_exactly lib receiver (unat n) parts w = (Inr ps, w')
        | Inl e \<Rightarrow> length new < unat n)"
proof -
  obtain r0 where r0: "receive_exactly lib receiver (unat n) parts w = (r0, w')"
    and r: "r = (case r0 of Inl e \<Rightarrow> Inl e | Inr ps \<Rightarrow> Inr (- 1, ps))"
    using assms unfolding receive_result_parts_unat by (auto split: prod.splits sum.splits)
  from receive_exactly_trace [OF r0] r r0 show ?thesis
    by (auto split: sum.splits)
qed

text \<open>A run of \<^verbatim>\<open>main\<close> that returns has printed, for every item of the Receiver's
  input and in the input's order, the verdict that \<^verbatim>\<open>process_result\<close> returned at the
  same index. Which verdicts those are is the library's business.\<close>

lemma main_prints_results_in_order:
  assumes "main_body lib params_fs raw_sender raw_receiver w0 = (Inr n, w)"
  shows "\<exists>receiver label_keys itt result_parts results.
     process_result lib receiver label_keys itt result_parts = Inr results \<and>
     cout w = cout w0 @ concat (map (verdict_line raw_receiver results) [0..<length raw_receiver])"
  using assms
  unfolding main_body_def andthen_def call_def channel_write_def channel_read_def log_event_def
  apply (simp split: sum.splits prod.splits add: Let_def print_results_cout)
  apply (auto dest!: receive_result_parts_cases split: sum.splits prod.splits)
  apply blast
  done

subsection \<open>The order of the exchange\<close>

text \<open>
  C5. Within one session the OPRF exchange is a completed round trip before the Query
  Request is sent, and the Query Request is built from the unblinded hashes. In every run
  of \<^verbatim>\<open>main\<close>, over every library, in which the Query Request \<open>q\<close> is sent (line 113):
  \<^verbatim>\<open>channel.send\<close> has put the OPRF request on the channel the run started with (line
  82); \<^verbatim>\<open>receive_operation\<close> has read from the channel so left (86);
  \<^verbatim>\<open>RunOPRF\<close> has answered on the channel so left (90); \<^verbatim>\<open>receive_response\<close> has
  read the response from the channel so left (95); \<^verbatim>\<open>ExtractHashes\<close> has returned the
  hashes for that response and the Receiver's own OPRF state (97); \<open>q\<close> is what
  \<^verbatim>\<open>create_query\<close> returned for the first component of those hashes (107), on the
  Receiver built from the loaded parameters; and the \<^verbatim>\<open>send\<close> of \<open>q\<close> acts on the
  channel as \<^verbatim>\<open>receive_response\<close> left it. The trace starts with these six steps,
  in this order.
\<close>

theorem oprf_round_trip_before_query:
  assumes "main_body lib params_fs raw_sender raw_receiver w0 = (r, w)"
    and "trace w0 = []"
    and "Sent_Query_Request q \<in> set (trace w)"
  shows "\<exists>params sender_db0 sender_db oprf_receiver request c1 received c2
      received_oprf_request c3 response c4 oprf_response hashes receiver itt c5 rest.
     Load lib (read_params params_fs []) = Inr params \<and>
     SenderDB lib params = Inr sender_db0 \<and>
     insert_or_assign lib sender_db0 (map Item raw_sender) = Inr sender_db \<and>
     CreateOPRFReceiver lib (map Item raw_receiver) = Inr oprf_receiver \<and>
     CreateOPRFRequest lib oprf_receiver = Inr request \<and>
     send lib (channel w0) request = Inr c1 \<and>
     receive_operation lib c1 (sender_get_seal_context lib sender_db) = Inr (received, c2) \<and>
     to_oprf_request lib received = Inr received_oprf_request \<and>
     RunOPRF lib received_oprf_request (get_oprf_key lib sender_db) c2 = Inr c3 \<and>
     receive_response lib c3 = Inr (response, c4) \<and>
     to_oprf_response lib response = Inr oprf_response \<and>
     ExtractHashes lib oprf_response oprf_receiver = Inr hashes \<and>
     Receiver lib params = Inr receiver \<and>
     create_query lib receiver (fst hashes) = Inr (q, itt) \<and>
     send lib c4 q = Inr c5 \<and>
     trace w = [Sent_OPRF_Request request, Received_OPRF_Request received, Ran_OPRF,
                Received_OPRF_Response response, Extracted_Hashes hashes,
                Sent_Query_Request q] @ rest"
  using assms
  unfolding main_body_def andthen_def call_def channel_write_def channel_read_def log_event_def
  apply (simp split: sum.splits prod.splits add: Let_def print_results_cout)
  apply (auto dest!: receive_result_parts_cases split: sum.splits prod.splits)
  done

text \<open>The run of \<^verbatim>\<open>main\<close> on the instance: the OPRF request goes onto the empty channel,
  and the Query Request is the sixth step.\<close>

theorem oprf_round_trip_before_query_witness:
  "Sent_Query_Request (Query_Request [Item ''Amir'', Item ''Charlie'', Item ''Danny'', Item ''Eve''])
     \<in> set (trace (snd (main loopback [''{}''])))
   \<and> send loopback (StreamChannel loopback)
         (OPRF_Request [Item ''Amir'', Item ''Charlie'', Item ''Danny'', Item ''Eve''])
       = Inr [Operation (OPRF_Request [Item ''Amir'', Item ''Charlie'', Item ''Danny'', Item ''Eve''])]
   \<and> take 6 (trace (snd (main loopback [''{}'']))) =
     [Sent_OPRF_Request (OPRF_Request [Item ''Amir'', Item ''Charlie'', Item ''Danny'', Item ''Eve'']),
      Received_OPRF_Request (OPRF_Request [Item ''Amir'', Item ''Charlie'', Item ''Danny'', Item ''Eve'']),
      Ran_OPRF,
      Received_OPRF_Response (OPRF_Response [Item ''Amir'', Item ''Charlie'', Item ''Danny'', Item ''Eve'']),
      Extracted_Hashes ([Item ''Amir'', Item ''Charlie'', Item ''Danny'', Item ''Eve''], [(), (), (), ()]),
      Sent_Query_Request (Query_Request [Item ''Amir'', Item ''Charlie'', Item ''Danny'', Item ''Eve''])]"
proof -
  let ?w0 = "\<lparr>channel = StreamChannel loopback, trace = [], cout = []\<rparr>"
  let ?run = "main_body loopback [''{}''] raw_sender_items raw_receiver_items ?w0"
  let ?items = "[Item ''Amir'', Item ''Charlie'', Item ''Danny'', Item ''Eve'']"
  let ?q = "Query_Request ?items"
  have run: "?run = (fst ?run, snd ?run)" by simp
  have tr: "trace (snd ?run) =
     [Sent_OPRF_Request (OPRF_Request ?items), Received_OPRF_Request (OPRF_Request ?items),
      Ran_OPRF, Received_OPRF_Response (OPRF_Response ?items),
      Extracted_Hashes (?items, [(), (), (), ()]), Sent_Query_Request ?q,
      Received_Query_Request ?q, Ran_Query,
      Received_Query_Response (Query_Response \<lparr>package_count = 2\<rparr>),
      Received_Result_Part [False, True, False, True],
      Received_Result_Part [False, False, False, False],
      Called_process_result [(), (), (), ()] 4
        [[False, True, False, True], [False, False, False, False]]]"
    by code_simp
  have sent: "Sent_Query_Request ?q \<in> set (trace (snd ?run))"
    unfolding tr by simp
  have start: "trace ?w0 = []" by simp
  from oprf_round_trip_before_query [OF run start sent]
  have first_six: "\<exists>request received response hashes rest.
    trace (snd ?run) = [Sent_OPRF_Request request, Received_OPRF_Request received, Ran_OPRF,
       Received_OPRF_Response response, Extracted_Hashes hashes, Sent_Query_Request ?q] @ rest"
    by (elim exE conjE) (intro exI, assumption)
  have on_channel: "send loopback (StreamChannel loopback) (OPRF_Request ?items)
      = Inr [Operation (OPRF_Request ?items)]"
    by (simp add: loopback_def stream_send_def)
  from first_six sent on_channel show ?thesis
    unfolding main_def by (simp add: tr)
qed

subsection \<open>The Query Response and its Result Parts\<close>

text \<open>The whole of a run of \<^verbatim>\<open>main\<close> that gets as far as calling
  \<^verbatim>\<open>process_result\<close> (line 143), over every library: each library call with the
  arguments it was given and the channel it acted on.\<close>

lemma main_run_to_process_result:
  assumes "main_body lib params_fs raw_sender raw_receiver w0 = (r, w)"
    and "trace w0 = []"
    and "Called_process_result label_keys itt result_parts \<in> set (trace w)"
  shows "\<exists>params sender_db0 sender_db oprf_receiver request c1 received c2 received_oprf_request
      c3 response c4 oprf_response hashes receiver query_request c5 received_query c6
      received_query_request query c7 query_response_message c8 query_response w9.
     Load lib (read_params params_fs []) = Inr params \<and>
     SenderDB lib params = Inr sender_db0 \<and>
     insert_or_assign lib sender_db0 (map Item raw_sender) = Inr sender_db \<and>
     CreateOPRFReceiver lib (map Item raw_receiver) = Inr oprf_receiver \<and>
     CreateOPRFRequest lib oprf_receiver = Inr request \<and>
     send lib (channel w0) request = Inr c1 \<and>
     receive_operation lib c1 (sender_get_seal_context lib sender_db) = Inr (received, c2) \<and>
     to_oprf_request lib received = Inr received_oprf_request \<and>
     RunOPRF lib received_oprf_request (get_oprf_key lib sender_db) c2 = Inr c3 \<and>
     receive_response lib c3 = Inr (response, c4) \<and>
     to_oprf_response lib response = Inr oprf_response \<and>
     ExtractHashes lib oprf_response oprf_receiver = Inr hashes \<and>
     Receiver lib params = Inr receiver \<and>
     create_query lib receiver (fst hashes) = Inr (query_request, itt) \<and>
     send lib c4 query_request = Inr c5 \<and>
     receive_operation lib c5 (sender_get_seal_context lib sender_db) = Inr (received_query, c6) \<and>
     to_query_request lib received_query = Inr received_query_request \<and>
     Query lib received_query_request sender_db = Inr query \<and>
     RunQuery lib query c6 = Inr c7 \<and>
     receive_response lib c7 = Inr (query_response_message, c8) \<and>
     to_query_response lib query_response_message = Inr query_response \<and>
     receive_exactly lib receiver (unat (package_count query_response)) []
       (w0\<lparr>channel := c8,
           trace := [Sent_OPRF_Request request, Received_OPRF_Request received, Ran_OPRF,
                     Received_OPRF_Response response, Extracted_Hashes hashes,
                     Sent_Query_Request query_request, Received_Query_Request received_query,
                     Ran_Query, Received_Query_Response query_response_message]\<rparr>)
       = (Inr result_parts, w9) \<and>
     length result_parts = unat (package_count query_response) \<and>
     label_keys = snd hashes \<and>
     r = map_sum id (\<lambda>results. 0) (process_result lib receiver label_keys itt result_parts) \<and>
     channel w = channel w9 \<and>
     trace w = [Sent_OPRF_Request request, Received_OPRF_Request received, Ran_OPRF,
                Received_OPRF_Response response, Extracted_Hashes hashes,
                Sent_Query_Request query_request, Received_Query_Request received_query,
                Ran_Query, Received_Query_Response query_response_message]
               @ map Received_Result_Part result_parts
               @ [Called_process_result label_keys itt result_parts]"
  using assms
  unfolding main_body_def andthen_def call_def channel_write_def channel_read_def log_event_def
  apply (simp split: sum.splits prod.splits add: Let_def print_results_cout)
  apply (auto dest!: receive_result_parts_cases split: sum.splits prod.splits)
  done

lemma Sender_RunQuery_writes:
  "\<exists>parts. Sender_RunQuery partitions evaluate query c =
       Inr (c @ Reply (Query_Response \<lparr>package_count = partitions query\<rparr>) # map Result_Part parts)
     \<and> length parts = unat (partitions query)"
  unfolding Sender_RunQuery_def
  by (rule exI [of _ "map (evaluate query) [0..<unat (partitions query)]"]) (simp add: comp_def)

text \<open>Over the stream as the specification describes it, the reference takes exactly the
  parts that stand at the head of the stream, when it is given their number.\<close>

lemma receive_exactly_stream:
  assumes "receive_result lib = stream_receive_result"
  shows "channel w = map Result_Part parts @ rest \<Longrightarrow>
     receive_exactly lib receiver (length parts) collected w =
       (Inr (collected @ parts),
        w\<lparr>channel := rest, trace := trace w @ map Received_Result_Part parts\<rparr>)"
proof (induction parts arbitrary: collected w)
  case Nil
  then show ?case by simp
next
  case (Cons p parts)
  let ?w1 = "w\<lparr>channel := map Result_Part parts @ rest,
                 trace := trace w @ [Received_Result_Part p]\<rparr>"
  have "channel ?w1 = map Result_Part parts @ rest" by simp
  from Cons.IH [OF this, of "collected @ [p]"] Cons.prems assms show ?case
    by (simp add: stream_receive_result_def)
qed

text \<open>\<^verbatim>\<open>main\<close> over that stream, with a Sender that frames its answers as the
  specification says: what \<^verbatim>\<open>process_result\<close> is given is, part for part, what
  \<^verbatim>\<open>RunQuery\<close> wrote after its Query Response, and nothing is left on the stream.\<close>

lemma main_over_stream_collects_what_RunQuery_wrote:
  assumes chan: "send lib = stream_send" "receive_operation lib = stream_receive_operation"
      "receive_response lib = stream_receive_response" "receive_result lib = stream_receive_result"
    and sender: "RunOPRF lib = Sender_RunOPRF oprf_evaluate"
      "RunQuery lib = Sender_RunQuery partitions evaluate"
    and conv: "to_query_response lib = as_query_response"
    and run: "main_body lib params_fs raw_sender raw_receiver w0 = (r, w)"
    and start: "channel w0 = []" "trace w0 = []"
    and called: "Called_process_result label_keys itt result_parts \<in> set (trace w)"
  shows "\<exists>sent_query.
     Sender_RunQuery partitions evaluate sent_query [] =
       Inr (Reply (Query_Response \<lparr>package_count = partitions sent_query\<rparr>)
              # map Result_Part result_parts)
     \<and> result_parts = map (evaluate sent_query) [0..<unat (partitions sent_query)]
     \<and> channel w = []"
proof -
  from main_run_to_process_result [OF run start(2) called]
  obtain sender_db request c1 received c2 received_oprf_request c3 response c4
      receiver query_request c5 received_query c6 query c7 query_response_message c8
      query_response w9 hashes
    where chain:
      "send lib (channel w0) request = Inr c1 \<and>
       receive_operation lib c1 (sender_get_seal_context lib sender_db) = Inr (received, c2) \<and>
       RunOPRF lib received_oprf_request (get_oprf_key lib sender_db) c2 = Inr c3 \<and>
       receive_response lib c3 = Inr (response, c4) \<and>
       send lib c4 query_request = Inr c5 \<and>
       receive_operation lib c5 (sender_get_seal_context lib sender_db) = Inr (received_query, c6) \<and>
       RunQuery lib query c6 = Inr c7 \<and>
       receive_response lib c7 = Inr (query_response_message, c8) \<and>
       to_query_response lib query_response_message = Inr query_response \<and>
       receive_exactly lib receiver (unat (package_count query_response)) []
         (w0\<lparr>channel := c8,
             trace := [Sent_OPRF_Request request, Received_OPRF_Request received, Ran_OPRF,
                       Received_OPRF_Response response, Extracted_Hashes hashes,
                       Sent_Query_Request query_request, Received_Query_Request received_query,
                       Ran_Query, Received_Query_Response query_response_message]\<rparr>)
         = (Inr result_parts, w9) \<and>
       channel w = channel w9"
    by (elim exE conjE) (rule that, intro conjI, assumption+)
  let ?w8 = "w0\<lparr>channel := c8,
             trace := [Sent_OPRF_Request request, Received_OPRF_Request received, Ran_OPRF,
                       Received_OPRF_Response response, Extracted_Hashes hashes,
                       Sent_Query_Request query_request, Received_Query_Request received_query,
                       Ran_Query, Received_Query_Response query_response_message]\<rparr>"
  from chain have s1: "send lib (channel w0) request = Inr c1"
      and r1: "receive_operation lib c1 (sender_get_seal_context lib sender_db) = Inr (received, c2)"
      and o1: "RunOPRF lib received_oprf_request (get_oprf_key lib sender_db) c2 = Inr c3"
      and p1: "receive_response lib c3 = Inr (response, c4)"
      and s2: "send lib c4 query_request = Inr c5"
      and r2: "receive_operation lib c5 (sender_get_seal_context lib sender_db) = Inr (received_query, c6)"
      and q1: "RunQuery lib query c6 = Inr c7"
      and p2: "receive_response lib c7 = Inr (query_response_message, c8)"
      and t2: "to_query_response lib query_response_message = Inr query_response"
      and loop: "receive_exactly lib receiver (unat (package_count query_response)) [] ?w8
                   = (Inr result_parts, w9)"
      and fin: "channel w = channel w9"
    by blast+
  let ?ps = "map (evaluate query) [0..<unat (partitions query)]"
  from s1 start(1) chan(1) have c1: "c1 = [Operation request]"
    by (simp add: stream_send_def)
  from r1 c1 chan(2) have c2: "c2 = []"
    by (simp add: stream_receive_operation_def)
  from o1 c2 sender(1) have c3: "\<exists>m. c3 = [Reply m]"
    by (auto simp: Sender_RunOPRF_def)
  from p1 c3 chan(3) have c4: "c4 = []"
    by (auto simp: stream_receive_response_def)
  from s2 c4 chan(1) have c5: "c5 = [Operation query_request]"
    by (simp add: stream_send_def)
  from r2 c5 chan(2) have c6: "c6 = []"
    by (simp add: stream_receive_operation_def)
  from q1 c6 sender(2) have c7:
    "c7 = Reply (Query_Response \<lparr>package_count = partitions query\<rparr>) # map Result_Part ?ps"
    by (simp add: Sender_RunQuery_def comp_def)
  from p2 c7 chan(3) have c8: "c8 = map Result_Part ?ps"
    and m: "query_response_message = Query_Response \<lparr>package_count = partitions query\<rparr>"
    by (auto simp: stream_receive_response_def)
  from t2 m conv have qr: "package_count query_response = partitions query"
    by (auto simp: as_query_response_def)
  have "channel ?w8 = map Result_Part ?ps @ []"
    using c8 by simp
  from receive_exactly_stream [OF chan(4) this, of receiver "[]"] loop qr
  have "result_parts = ?ps" and "channel w9 = []"
    by auto
  with fin c6 q1 sender(2) show ?thesis
    by (auto simp: Sender_RunQuery_def comp_def)
qed

text \<open>
  C3. For every query, \<^verbatim>\<open>Sender::RunQuery\<close> (as the specification describes it) appends
  to the channel a Query Response carrying \<^verbatim>\<open>package_count\<close> and then exactly
  \<^verbatim>\<open>package_count\<close> Result Part messages. The Receiver, in every run of \<^verbatim>\<open>main\<close>
  that calls \<^verbatim>\<open>process_result\<close> (line 143), over every library: \<^verbatim>\<open>RunQuery\<close> has
  acted on the channel as the Sender's \<^verbatim>\<open>receive_operation\<close> left it (124);
  \<^verbatim>\<open>receive_response\<close> has read the Query Response from the channel so left (128);
  the parts given to \<^verbatim>\<open>process_result\<close> are those that \<^verbatim>\<open>receive_result\<close>,
  called \<^verbatim>\<open>package_count\<close> times in a row starting on the channel so left, returned
  one after the other (133 to 140), the count being the one that response carries;
  \<^verbatim>\<open>process_result\<close> is called with them, and what it returns or throws decides how
  the run ends. The two halves fit: over the stream as the specification describes it, with
  the Sender framing its answers as the specification says, the parts given to
  \<^verbatim>\<open>process_result\<close> are exactly the parts \<^verbatim>\<open>RunQuery\<close> wrote after its Query
  Response, in order, and the stream is empty afterwards.
\<close>

theorem package_count_result_parts:
  "(\<exists>parts. Sender_RunQuery partitions evaluate query c =
       Inr (c @ Reply (Query_Response \<lparr>package_count = partitions query\<rparr>) # map Result_Part parts)
     \<and> length parts = unat (partitions query))
   \<and> (main_body lib params_fs raw_sender raw_receiver w0 = (r, w) \<longrightarrow> trace w0 = [] \<longrightarrow>
      Called_process_result label_keys itt result_parts \<in> set (trace w) \<longrightarrow>
      (\<exists>params sender_db0 sender_db oprf_receiver request c1 received c2 received_oprf_request
          c3 response c4 oprf_response hashes receiver query_request c5 received_query c6
          received_query_request sent_query c7 query_response_message c8 query_response w9.
         Load lib (read_params params_fs []) = Inr params \<and>
         SenderDB lib params = Inr sender_db0 \<and>
         insert_or_assign lib sender_db0 (map Item raw_sender) = Inr sender_db \<and>
         CreateOPRFReceiver lib (map Item raw_receiver) = Inr oprf_receiver \<and>
         CreateOPRFRequest lib oprf_receiver = Inr request \<and>
         send lib (channel w0) request = Inr c1 \<and>
         receive_operation lib c1 (sender_get_seal_context lib sender_db) = Inr (received, c2) \<and>
         to_oprf_request lib received = Inr received_oprf_request \<and>
         RunOPRF lib received_oprf_request (get_oprf_key lib sender_db) c2 = Inr c3 \<and>
         receive_response lib c3 = Inr (response, c4) \<and>
         to_oprf_response lib response = Inr oprf_response \<and>
         ExtractHashes lib oprf_response oprf_receiver = Inr hashes \<and>
         Receiver lib params = Inr receiver \<and>
         create_query lib receiver (fst hashes) = Inr (query_request, itt) \<and>
         send lib c4 query_request = Inr c5 \<and>
         receive_operation lib c5 (sender_get_seal_context lib sender_db)
           = Inr (received_query, c6) \<and>
         to_query_request lib received_query = Inr received_query_request \<and>
         Query lib received_query_request sender_db = Inr sent_query \<and>
         RunQuery lib sent_query c6 = Inr c7 \<and>
         receive_response lib c7 = Inr (query_response_message, c8) \<and>
         to_query_response lib query_response_message = Inr query_response \<and>
         receive_exactly lib receiver (unat (package_count query_response)) []
           (w0\<lparr>channel := c8,
               trace := [Sent_OPRF_Request request, Received_OPRF_Request received, Ran_OPRF,
                         Received_OPRF_Response response, Extracted_Hashes hashes,
                         Sent_Query_Request query_request,
                         Received_Query_Request received_query,
                         Ran_Query, Received_Query_Response query_response_message]\<rparr>)
           = (Inr result_parts, w9) \<and>
         length result_parts = unat (package_count query_response) \<and>
         label_keys = snd hashes \<and>
         r = map_sum id (\<lambda>results. 0)
               (process_result lib receiver label_keys itt result_parts) \<and>
         channel w = channel w9 \<and>
         trace w = [Sent_OPRF_Request request, Received_OPRF_Request received, Ran_OPRF,
                    Received_OPRF_Response response, Extracted_Hashes hashes,
                    Sent_Query_Request query_request, Received_Query_Request received_query,
                    Ran_Query, Received_Query_Response query_response_message]
                   @ map Received_Result_Part result_parts
                   @ [Called_process_result label_keys itt result_parts]))
   \<and> (send slib = stream_send \<longrightarrow> receive_operation slib = stream_receive_operation \<longrightarrow>
      receive_response slib = stream_receive_response \<longrightarrow>
      receive_result slib = stream_receive_result \<longrightarrow>
      RunOPRF slib = Sender_RunOPRF oprf_evaluate \<longrightarrow>
      RunQuery slib = Sender_RunQuery partitions evaluate \<longrightarrow>
      to_query_response slib = as_query_response \<longrightarrow>
      main_body slib sparams_fs sraw_sender sraw_receiver s0 = (sr, sw) \<longrightarrow>
      channel s0 = [] \<longrightarrow> trace s0 = [] \<longrightarrow>
      Called_process_result slabel_keys sitt sresult_parts \<in> set (trace sw) \<longrightarrow>
      (\<exists>sent_query.
         Sender_RunQuery partitions evaluate sent_query [] =
           Inr (Reply (Query_Response \<lparr>package_count = partitions sent_query\<rparr>)
                  # map Result_Part sresult_parts)
         \<and> sresult_parts = map (evaluate sent_query) [0..<unat (partitions sent_query)]
         \<and> channel sw = []))"
  apply (intro conjI impI)
    apply (rule Sender_RunQuery_writes)
   apply (rule main_run_to_process_result; assumption)
  apply (rule main_over_stream_collects_what_RunQuery_wrote; assumption)
  done

text \<open>The run of \<^verbatim>\<open>main\<close> on the instance, whose database has two partitions: the
  Sender writes the response and two different parts, the Receiver reads the count 2 and
  then those two parts, in order, before it calls \<^verbatim>\<open>process_result\<close> with them, and the
  stream is empty at the end.\<close>

theorem package_count_result_parts_witness:
  "Sender_RunQuery (\<lambda>(hashed, params, held). params)
       (\<lambda>(hashed, params, held) j. map (\<lambda>h. h \<in> set (dealt_to params held j)) hashed)
       ([Item ''Amir'', Item ''Charlie'', Item ''Danny'', Item ''Eve''], 2, map Item raw_sender_items)
       ([] :: ((Item list, Item list) Request, Item list Response, bool list) message list) =
     Inr [Reply (Query_Response \<lparr>package_count = 2\<rparr>),
          Result_Part [False, True, False, True], Result_Part [False, False, False, False]]
   \<and> Called_process_result [(), (), (), ()] 4
         [[False, True, False, True], [False, False, False, False]]
       \<in> set (trace (snd (main loopback [''{}''])))
   \<and> channel (snd (main loopback [''{}''])) = []
   \<and> drop 7 (trace (snd (main loopback [''{}'']))) =
       [Ran_Query, Received_Query_Response (Query_Response \<lparr>package_count = 2\<rparr>),
        Received_Result_Part [False, True, False, True],
        Received_Result_Part [False, False, False, False],
        Called_process_result [(), (), (), ()] 4
          [[False, True, False, True], [False, False, False, False]]]"
proof -
  let ?w0 = "\<lparr>channel = StreamChannel loopback, trace = [], cout = []\<rparr>"
  let ?run = "main_body loopback [''{}''] raw_sender_items raw_receiver_items ?w0"
  let ?items = "[Item ''Amir'', Item ''Charlie'', Item ''Danny'', Item ''Eve'']"
  let ?q = "Query_Request ?items"
  let ?parts = "[[False, True, False, True], [False, False, False, False]]"
  let ?P = "(\<lambda>(hashed, params, held). params)
              :: Item list \<times> 32 word \<times> Item list \<Rightarrow> 32 word"
  let ?E = "(\<lambda>(hashed, params, held) j. map (\<lambda>h. h \<in> set (dealt_to params held j)) hashed)
              :: Item list \<times> 32 word \<times> Item list \<Rightarrow> nat \<Rightarrow> bool list"
  have run: "?run = (fst ?run, snd ?run)" by simp
  have tr: "trace (snd ?run) =
     [Sent_OPRF_Request (OPRF_Request ?items), Received_OPRF_Request (OPRF_Request ?items),
      Ran_OPRF, Received_OPRF_Response (OPRF_Response ?items),
      Extracted_Hashes (?items, [(), (), (), ()]), Sent_Query_Request ?q,
      Received_Query_Request ?q, Ran_Query,
      Received_Query_Response (Query_Response \<lparr>package_count = 2\<rparr>),
      Received_Result_Part [False, True, False, True],
      Received_Result_Part [False, False, False, False],
      Called_process_result [(), (), (), ()] 4 ?parts]"
    by code_simp
  have written: "Sender_RunQuery ?P ?E (?items, 2, map Item raw_sender_items)
       ([] :: ((Item list, Item list) Request, Item list Response, bool list) message list) =
     Inr [Reply (Query_Response \<lparr>package_count = 2\<rparr>),
          Result_Part [False, True, False, True], Result_Part [False, False, False, False]]"
    by code_simp
  have called: "Called_process_result [(), (), (), ()] 4 ?parts \<in> set (trace (snd ?run))"
    unfolding tr by simp
  have start: "trace ?w0 = []" by simp
  have empty: "channel ?w0 = []" by (simp add: loopback_def)
  have h1: "send loopback = stream_send" by (simp add: loopback_def)
  have h2: "receive_operation loopback = stream_receive_operation" by (simp add: loopback_def)
  have h3: "receive_response loopback = stream_receive_response" by (simp add: loopback_def)
  have h4: "receive_result loopback = stream_receive_result" by (simp add: loopback_def)
  have h5: "RunOPRF loopback = Sender_RunOPRF (\<lambda>key item. item)" by (simp add: loopback_def)
  have h6: "RunQuery loopback = Sender_RunQuery ?P ?E" by (simp add: loopback_def)
  have h7: "to_query_response loopback = as_query_response" by (simp add: loopback_def)
  note th = package_count_result_parts [where partitions = ?P and evaluate = ?E
      and query = "(?items, 2, map Item raw_sender_items)"
      and c = "[] :: ((Item list, Item list) Request, Item list Response, bool list) message list"
      and lib = loopback and params_fs = "[''{}'']" and raw_sender = raw_sender_items
      and raw_receiver = raw_receiver_items and ?w0.0 = ?w0 and r = "fst ?run" and w = "snd ?run"
      and label_keys = "[(), (), (), ()]" and itt = 4 and result_parts = ?parts
      and slib = loopback and oprf_evaluate = "\<lambda>key item. item" and sparams_fs = "[''{}'']"
      and sraw_sender = raw_sender_items and sraw_receiver = raw_receiver_items
      and ?s0.0 = ?w0 and sr = "fst ?run" and sw = "snd ?run"
      and slabel_keys = "[(), (), (), ()]" and sitt = 4 and sresult_parts = ?parts]
  from th [THEN conjunct2, THEN conjunct1, rule_format, OF run start called]
  have on_code: "length (trace (snd ?run)) \<ge> 11"
    by (elim exE conjE) simp
  from th [THEN conjunct2, THEN conjunct2, rule_format,
      OF h1 h2 h3 h4 h5 h6 h7 run empty start called]
  have drained: "channel (snd ?run) = []"
    by (elim exE conjE)
  from on_code drained written called show ?thesis
    unfolding main_def by (simp add: tr)
qed

end
